theory Spec2Isabelle
  imports Main
begin

section \<open>The real-time data client of poly-sdk\<close>

text \<open>
  The repository holds two drafts of the class \<open>RealTimeDataClient\<close>:
  \<^item> \<^verbatim>\<open>src/clients/ws-client.ts\<close>, without a liveness monitor; where a method name
    occurs in both drafts, this draft's function carries the suffix \<open>_A\<close>;
  \<^item> \<^verbatim>\<open>unnamed/part_001\<close>, with a ping/pong liveness monitor; suffix \<open>_B\<close>.

  A client instance lives inside a JavaScript runtime: sockets, the timers of
  the event loop, the console and the owner's callbacks. The runtime is part of
  the state; every method and every handler is a function on that state. The
  owner's callbacks are recorded (they are assumed to return without calling
  back into the client).
\<close>

subsection \<open>Values of the platform\<close>

datatype ConnectionStatus = CONNECTING | CONNECTED | DISCONNECTED

text \<open>JSON values; numbers are the integers, an object lists its own properties in
  property order.\<close>

datatype json =
    JNull
  | JBool bool
  | JNum int
  | JStr string
  | JArr "json list"
  | JObj "(string \<times> json) list"

datatype ready_state = WS_CONNECTING | WS_OPEN | WS_CLOSING | WS_CLOSED

text \<open>A socket: its state and whether each of the four handler slots is set
  (a slot set by \<open>connect\<close> always holds the instance's own handler).\<close>

record socket =
  url :: string
  readyState :: ready_state
  onopen :: bool
  onmessage :: bool
  onclose :: bool
  onerror :: bool

datatype sock_call = Send string | Close | Terminate

datatype ws_data = Text string | Binary "nat list"

datatype timer_kind = PingInterval | PongTimeout | Reconnect

text \<open>A pending timer of the event loop; \<open>period\<close> is set for an interval.\<close>

record timer =
  tid :: nat
  kind :: timer_kind
  due :: nat
  period :: "nat option"

datatype level = LOG | WARN | ERROR

datatype exn = SyntaxError | InvalidStateError | UnhandledError

datatype 's result = Ok 's | Threw exn 's

fun state_of :: "'s result \<Rightarrow> 's" where
  "state_of (Ok s) = s"
| "state_of (Threw e s) = s"

fun threw :: "'s result \<Rightarrow> exn option" where
  "threw (Ok s) = None"
| "threw (Threw e s) = Some e"

text \<open>What the platform decides and the repository does not. Both drafts import
  \<open>WebSocket\<close> from \<^verbatim>\<open>isomorphic-ws\<close>, which is the \<open>ws\<close> package under Node and the
  socket of the browser elsewhere.
  \<^item> \<open>JSON_parse\<close>: \<open>JSON.parse\<close>, \<open>None\<close> when it throws;
  \<^item> \<open>url_ok\<close>: the URLs that the \<open>WebSocket\<close> constructor accepts;
  \<^item> \<open>has_terminate\<close>: a socket has a \<open>terminate\<close> method (the \<open>ws\<close> package has one,
    a browser socket has none);
  \<^item> \<open>abort_emits_error\<close>: \<open>close()\<close> or \<open>terminate()\<close> on a socket that is still
    CONNECTING emits the error event of the aborted handshake before it returns
    (version 7 of the \<open>ws\<close> package; version 8 and a browser emit it later, from the
    event loop);
  \<^item> \<open>unheard_error_throws\<close>: an error event on a socket whose \<open>onerror\<close> slot is empty
    is an exception (the \<open>ws\<close> package, whose socket is an \<open>EventEmitter\<close>); a
    browser drops such an event.\<close>

record platform =
  JSON_parse :: "string \<Rightarrow> json option"
  url_ok :: "string \<Rightarrow> bool"
  has_terminate :: bool
  abort_emits_error :: bool
  unheard_error_throws :: bool

text \<open>The runtime around one instance. \<open>calls\<close> lists, in order, the frames handed
  to an open socket and the \<open>close\<close>/\<open>terminate\<close> invocations; \<open>statuses\<close>,
  \<open>messages\<close> and \<open>connected_cb\<close> record the invocations of the owner's
  \<open>onStatusChange\<close>, \<open>onMessage\<close> and \<open>onConnect\<close>; \<open>thrown\<close> the exceptions
  that escaped to the caller or to the event loop.\<close>

record runtime =
  now :: nat
  sockets :: "socket list"
  calls :: "(nat \<times> sock_call) list"
  timers :: "timer list"
  next_timer :: nat
  statuses :: "ConnectionStatus list"
  messages :: "json list"
  connected_cb :: nat
  console :: "(level \<times> string) list"
  thrown :: "exn list"

subsection \<open>Sockets\<close>

definition ready :: "'a runtime_scheme \<Rightarrow> nat \<Rightarrow> ready_state option" where
  "ready s i = (if i < length (sockets s) then Some (readyState (sockets s ! i)) else None)"

definition sock_upd :: "nat \<Rightarrow> (socket \<Rightarrow> socket) \<Rightarrow> 'a runtime_scheme \<Rightarrow> 'a runtime_scheme" where
  "sock_upd i f s =
     (if i < length (sockets s) then s\<lparr>sockets := (sockets s)[i := f (sockets s ! i)]\<rparr> else s)"

definition attached :: "socket \<Rightarrow> bool" where
  "attached k = (onopen k \<or> onmessage k \<or> onclose k \<or> onerror k)"

text \<open>\<open>new WebSocket(url)\<close>: throws (\<open>None\<close>) on a URL the platform rejects, else
  returns the handle of a fresh socket in state CONNECTING with empty slots.\<close>

definition new_WebSocket ::
  "platform \<Rightarrow> string \<Rightarrow> 'a runtime_scheme \<Rightarrow> nat option \<times> 'a runtime_scheme" where
  "new_WebSocket pf u s =
     (if url_ok pf u
      then (Some (length (sockets s)),
            s\<lparr>sockets := sockets s @
                 [\<lparr>url = u, readyState = WS_CONNECTING, onopen = False, onmessage = False,
                   onclose = False, onerror = False\<rparr>]\<rparr>)
      else (None, s))"

text \<open>The error event of socket \<open>i\<close>, given the handler that the instance puts into
  the \<open>onerror\<close> slot: the handler runs if the slot is set; with the slot empty
  the event is an exception or is dropped, as the platform has it.\<close>

definition emit_error ::
  "platform \<Rightarrow> ('a runtime_scheme \<Rightarrow> 'a runtime_scheme) \<Rightarrow> nat \<Rightarrow> 'a runtime_scheme
     \<Rightarrow> 'a runtime_scheme result" where
  "emit_error pf handler i s =
     (if i < length (sockets s) \<and> onerror (sockets s ! i) then Ok (handler s)
      else if unheard_error_throws pf then Threw UnhandledError s
      else Ok s)"

text \<open>\<open>close()\<close> and \<open>terminate()\<close> start the closing of a socket that is not yet
  closing; the close event comes later. On a socket that is still CONNECTING they
  abort the handshake: the state becomes CLOSING and, on a platform that emits
  the error of the abort at once, the error event runs inside the call, so that
  with an empty \<open>onerror\<close> slot the call itself throws. \<open>send\<close> throws while the
  socket is connecting and drops the frame once it is closing.\<close>

definition begin_closing :: "nat \<Rightarrow> 'a runtime_scheme \<Rightarrow> 'a runtime_scheme" where
  "begin_closing i s =
     (if ready s i = Some WS_CONNECTING \<or> ready s i = Some WS_OPEN
      then sock_upd i (\<lambda>k. k\<lparr>readyState := WS_CLOSING\<rparr>) s else s)"

definition closing_call ::
  "platform \<Rightarrow> ('a runtime_scheme \<Rightarrow> 'a runtime_scheme) \<Rightarrow> sock_call \<Rightarrow> nat
     \<Rightarrow> 'a runtime_scheme \<Rightarrow> 'a runtime_scheme result" where
  "closing_call pf handler c i s =
     (let s1 = begin_closing i (s\<lparr>calls := calls s @ [(i, c)]\<rparr>)
      in if ready s i = Some WS_CONNECTING \<and> abort_emits_error pf
         then emit_error pf handler i s1
         else Ok s1)"

definition ws_close ::
  "platform \<Rightarrow> ('a runtime_scheme \<Rightarrow> 'a runtime_scheme) \<Rightarrow> nat \<Rightarrow> 'a runtime_scheme
     \<Rightarrow> 'a runtime_scheme result" where
  "ws_close pf handler i s = closing_call pf handler Close i s"

definition ws_terminate ::
  "platform \<Rightarrow> ('a runtime_scheme \<Rightarrow> 'a runtime_scheme) \<Rightarrow> nat \<Rightarrow> 'a runtime_scheme
     \<Rightarrow> 'a runtime_scheme result" where
  "ws_terminate pf handler i s = closing_call pf handler Terminate i s"

definition ws_send :: "nat \<Rightarrow> string \<Rightarrow> 'a runtime_scheme \<Rightarrow> 'a runtime_scheme result" where
  "ws_send i frame s =
     (if ready s i = Some WS_OPEN then Ok (s\<lparr>calls := calls s @ [(i, Send frame)]\<rparr>)
      else if ready s i = Some WS_CONNECTING then Threw InvalidStateError s
      else Ok s)"

subsection \<open>Timers and the console\<close>

text \<open>The delay a timer really gets: below 1 or above \<open>2^31 - 1\<close> it is 1.\<close>

definition timer_delay :: "int \<Rightarrow> nat" where
  "timer_delay d = (if d < 1 \<or> 2147483647 < d then 1 else nat d)"

definition setTimeout ::
  "timer_kind \<Rightarrow> int \<Rightarrow> 'a runtime_scheme \<Rightarrow> nat \<times> 'a runtime_scheme" where
  "setTimeout k d s =
     (next_timer s,
      s\<lparr>timers := timers s @
           [\<lparr>tid = next_timer s, kind = k, due = now s + timer_delay d, period = None\<rparr>],
        next_timer := Suc (next_timer s)\<rparr>)"

definition setInterval ::
  "timer_kind \<Rightarrow> int \<Rightarrow> 'a runtime_scheme \<Rightarrow> nat \<times> 'a runtime_scheme" where
  "setInterval k d s =
     (next_timer s,
      s\<lparr>timers := timers s @
           [\<lparr>tid = next_timer s, kind = k, due = now s + timer_delay d,
             period = Some (timer_delay d)\<rparr>],
        next_timer := Suc (next_timer s)\<rparr>)"

definition clearTimeout :: "nat \<Rightarrow> 'a runtime_scheme \<Rightarrow> 'a runtime_scheme" where
  "clearTimeout t s = s\<lparr>timers := filter (\<lambda>x. tid x \<noteq> t) (timers s)\<rparr>"

definition clearInterval :: "nat \<Rightarrow> 'a runtime_scheme \<Rightarrow> 'a runtime_scheme" where
  "clearInterval t s = clearTimeout t s"

text \<open>The event loop runs a pending timer, not before it is due: a timeout leaves
  the loop, an interval is armed again. The result is the callback to run.\<close>

definition fire_timer :: "nat \<Rightarrow> 'a runtime_scheme \<Rightarrow> (timer_kind \<times> 'a runtime_scheme) option" where
  "fire_timer t s =
     (case find (\<lambda>x. tid x = t) (timers s) of
        None \<Rightarrow> None
      | Some tm \<Rightarrow>
          let t1 = max (now s) (due tm) in
          Some (kind tm,
                s\<lparr>now := t1,
                  timers := (case period tm of
                               None \<Rightarrow> filter (\<lambda>x. tid x \<noteq> t) (timers s)
                             | Some p \<Rightarrow> map (\<lambda>x. if tid x = t then x\<lparr>due := t1 + p\<rparr> else x)
                                          (timers s))\<rparr>))"

definition console_log :: "string \<Rightarrow> 'a runtime_scheme \<Rightarrow> 'a runtime_scheme" where
  "console_log m s = s\<lparr>console := console s @ [(LOG, m)]\<rparr>"

definition console_warn :: "string \<Rightarrow> 'a runtime_scheme \<Rightarrow> 'a runtime_scheme" where
  "console_warn m s = s\<lparr>console := console s @ [(WARN, m)]\<rparr>"

definition console_error :: "string \<Rightarrow> 'a runtime_scheme \<Rightarrow> 'a runtime_scheme" where
  "console_error m s = s\<lparr>console := console s @ [(ERROR, m)]\<rparr>"

subsection \<open>Strings and JSON of the platform\<close>

text \<open>\<open>String.prototype.includes\<close>.\<close>

fun str_includes :: "string \<Rightarrow> string \<Rightarrow> bool" where
  "str_includes [] sub = (sub = [])"
| "str_includes (c # cs) sub = (take (length sub) (c # cs) = sub \<or> str_includes cs sub)"

fun show_nat :: "nat \<Rightarrow> string" where
  "show_nat n =
     (if n < 10 then [char_of (48 + n)] else show_nat (n div 10) @ [char_of (48 + n mod 10)])"

definition show_int :: "int \<Rightarrow> string" where
  "show_int n = (if n < 0 then ''-'' @ show_nat (nat (- n)) else show_nat (nat n))"

definition hex_digit :: "nat \<Rightarrow> char" where
  "hex_digit d = (if d < 10 then char_of (48 + d) else char_of (87 + d))"

text \<open>The escapes of \<open>JSON.stringify\<close> inside a string: the quote, the backslash and
  the control characters.\<close>

definition escape_char :: "char \<Rightarrow> string" where
  "escape_char c =
     (if c = CHR 0x22 then [CHR 0x5C, CHR 0x22]
      else if c = CHR 0x5C then [CHR 0x5C, CHR 0x5C]
      else if c = CHR 0x08 then [CHR 0x5C, CHR ''b'']
      else if c = CHR 0x0C then [CHR 0x5C, CHR ''f'']
      else if c = CHR 0x0A then [CHR 0x5C, CHR ''n'']
      else if c = CHR 0x0D then [CHR 0x5C, CHR ''r'']
      else if c = CHR 0x09 then [CHR 0x5C, CHR ''t'']
      else if (of_char c :: nat) < 32
        then [CHR 0x5C, CHR ''u'', CHR ''0'', CHR ''0'',
              hex_digit (of_char c div 16), hex_digit (of_char c mod 16)]
      else [c])"

definition quote :: "string \<Rightarrow> string" where
  "quote str = [CHR 0x22] @ concat (map escape_char str) @ [CHR 0x22]"

fun join :: "string \<Rightarrow> string list \<Rightarrow> string" where
  "join sep [] = []"
| "join sep [x] = x"
| "join sep (x # y # ys) = x @ sep @ join sep (y # ys)"

fun JSON_stringify :: "json \<Rightarrow> string" where
  "JSON_stringify JNull = ''null''"
| "JSON_stringify (JBool b) = (if b then ''true'' else ''false'')"
| "JSON_stringify (JNum n) = show_int n"
| "JSON_stringify (JStr str) = quote str"
| "JSON_stringify (JArr xs) = ''['' @ join '','' (map JSON_stringify xs) @ '']''"
| "JSON_stringify (JObj kvs) =
     ''{'' @ join '','' (map (\<lambda>(k, v). quote k @ '':'' @ JSON_stringify v) kvs) @ ''}''"

text \<open>The property order of an object: the array indices (canonical decimal
  numerals up to \<open>2^32 - 2\<close>) in ascending order, then the other keys in the
  order of their creation. Setting an existing property keeps its place.\<close>

definition index_of :: "string \<Rightarrow> int" where
  "index_of k = foldl (\<lambda>a c. 10 * a + (of_char c - 48)) 0 k"

definition is_index :: "string \<Rightarrow> bool" where
  "is_index k =
     (k \<noteq> [] \<and> (\<forall>c \<in> set k. 48 \<le> (of_char c :: nat) \<and> (of_char c :: nat) \<le> 57)
      \<and> (hd k = CHR ''0'' \<longrightarrow> k = ''0'') \<and> index_of k \<le> 4294967294)"

definition create_property ::
  "string \<Rightarrow> json \<Rightarrow> (string \<times> json) list \<Rightarrow> (string \<times> json) list" where
  "create_property k v obj =
     (if k \<in> fst ` set obj then map (\<lambda>(k', v'). if k' = k then (k', v) else (k', v')) obj
      else if is_index k
        then takeWhile (\<lambda>(k', v'). is_index k' \<and> index_of k' < index_of k) obj @ [(k, v)]
             @ dropWhile (\<lambda>(k', v'). is_index k' \<and> index_of k' < index_of k) obj
      else obj @ [(k, v)])"

text \<open>The object literal \<open>{ ...obj, ...src }\<close>: the own properties of \<open>src\<close> are
  copied onto \<open>obj\<close> in their order.\<close>

definition spread :: "(string \<times> json) list \<Rightarrow> (string \<times> json) list \<Rightarrow> (string \<times> json) list" where
  "spread obj src = foldl (\<lambda>acc (k, v). create_property k v acc) obj src"

subsection \<open>The fields the two drafts share\<close>

text \<open>The constructor's argument: each member is optional; a callback is known
  by whether it was given. A \<open>number\<close> is an integer or \<open>NaN\<close>.\<close>

datatype number = Num int | NaN

record args =
  arg_onConnect :: bool
  arg_onMessage :: bool
  arg_onStatusChange :: bool
  arg_host :: "string option"
  arg_pingInterval :: "number option"
  arg_autoReconnect :: "bool option"

record client = runtime +
  host :: string
  autoReconnect :: bool
  has_onConnect :: bool
  has_onCustomMessage :: bool
  has_onStatusChange :: bool
  ws :: "nat option"

definition DEFAULT_HOST :: string where
  "DEFAULT_HOST = ''wss://ws-live-data.polymarket.com''"

definition DEFAULT_PING_INTERVAL :: int where
  "DEFAULT_PING_INTERVAL = 5000"

definition RECONNECT_DELAY :: int where
  "RECONNECT_DELAY = 3000"

definition notifyStatusChange :: "ConnectionStatus \<Rightarrow> 'a client_scheme \<Rightarrow> 'a client_scheme" where
  "notifyStatusChange st s =
     (if has_onStatusChange s then s\<lparr>statuses := statuses s @ [st]\<rparr> else s)"

text \<open>\<open>this.onConnect?.(this)\<close> and \<open>this.onCustomMessage(this, message)\<close>.\<close>

definition call_onConnect :: "'a client_scheme \<Rightarrow> 'a client_scheme" where
  "call_onConnect s = (if has_onConnect s then s\<lparr>connected_cb := Suc (connected_cb s)\<rparr> else s)"

definition call_onCustomMessage :: "json \<Rightarrow> 'a client_scheme \<Rightarrow> 'a client_scheme" where
  "call_onCustomMessage m s = s\<lparr>messages := messages s @ [m]\<rparr>"

text \<open>\<open>this.ws\<close> is set and its \<open>readyState\<close> is \<open>WebSocket.OPEN\<close>.\<close>

definition ws_is_open :: "'a client_scheme \<Rightarrow> bool" where
  "ws_is_open s = (case ws s of None \<Rightarrow> False | Some i \<Rightarrow> ready s i = Some WS_OPEN)"

definition set_handlers :: "bool \<Rightarrow> socket \<Rightarrow> socket" where
  "set_handlers b k = k\<lparr>onopen := b, onmessage := b, onclose := b, onerror := b\<rparr>"

text \<open>The events of one instance's life: the owner's calls, the events of the
  sockets, a timer of the event loop running, time passing, and the completion
  of a \<open>send\<close> that was given a callback (with an error or without).\<close>

datatype event =
    Call_connect
  | Call_disconnect
  | Call_subscribe "(string \<times> json) list"
  | Call_unsubscribe "(string \<times> json) list"
  | Sock_open nat
  | Sock_message nat ws_data
  | Sock_error nat
  | Sock_close nat
  | Timer_fire nat
  | Elapse nat
  | Send_done nat bool

text \<open>An exception that nobody catches is recorded; the state at the throw stays.\<close>

definition settle :: "'a runtime_scheme result \<Rightarrow> 'a runtime_scheme" where
  "settle r = (case r of Ok s \<Rightarrow> s | Threw e s \<Rightarrow> s\<lparr>thrown := thrown s @ [e]\<rparr>)"

text \<open>The envelope \<open>{ action: a, ...msg }\<close>.\<close>

definition envelope :: "string \<Rightarrow> (string \<times> json) list \<Rightarrow> json" where
  "envelope a msg = JObj (spread [(''action'', JStr a)] msg)"

subsection \<open>Draft B: \<^verbatim>\<open>unnamed/part_001\<close>, with the liveness monitor\<close>

record client_B = client +
  pingInterval :: int
  pingTimer :: "nat option"
  pongTimeout :: "nat option"
  reconnectTimer :: "nat option"

text \<open>\<open>x || d\<close> on an optional string and on an optional number.\<close>

definition or_string :: "string option \<Rightarrow> string \<Rightarrow> string" where
  "or_string x d = (case x of None \<Rightarrow> d | Some str \<Rightarrow> if str = [] then d else str)"

definition or_number :: "number option \<Rightarrow> int \<Rightarrow> int" where
  "or_number x d = (case x of None \<Rightarrow> d | Some NaN \<Rightarrow> d | Some (Num n) \<Rightarrow> if n = 0 then d else n)"

definition constructor_B :: "args \<Rightarrow> client_B" where
  "constructor_B a =
     \<lparr>now = 0, sockets = [], calls = [], timers = [], next_timer = 1, statuses = [],
      messages = [], connected_cb = 0, console = [], thrown = [],
      host = or_string (arg_host a) DEFAULT_HOST,
      autoReconnect = (case arg_autoReconnect a of None \<Rightarrow> True | Some b \<Rightarrow> b),
      has_onConnect = arg_onConnect a,
      has_onCustomMessage = arg_onMessage a,
      has_onStatusChange = arg_onStatusChange a,
      ws = None,
      pingInterval = or_number (arg_pingInterval a) DEFAULT_PING_INTERVAL,
      pingTimer = None, pongTimeout = None, reconnectTimer = None\<rparr>"

definition clearPongTimeout :: "client_B \<Rightarrow> client_B" where
  "clearPongTimeout s =
     (case pongTimeout s of
        Some t \<Rightarrow> (clearTimeout t s)\<lparr>pongTimeout := None\<rparr>
      | None \<Rightarrow> s)"

definition stopPinging :: "client_B \<Rightarrow> client_B" where
  "stopPinging s =
     clearPongTimeout
       (case pingTimer s of
          Some t \<Rightarrow> (clearInterval t s)\<lparr>pingTimer := None\<rparr>
        | None \<Rightarrow> s)"

definition startPinging :: "client_B \<Rightarrow> client_B" where
  "startPinging s =
     (let s1 = stopPinging s;
          (h, s2) = setInterval PingInterval (pingInterval s1) s1
      in s2\<lparr>pingTimer := Some h\<rparr>)"

text \<open>The callback of the ping interval.\<close>

definition ping_tick :: "client_B \<Rightarrow> client_B result" where
  "ping_tick s =
     (case ws s of
        None \<Rightarrow> Ok s
      | Some i \<Rightarrow>
          if ready s i = Some WS_OPEN
          then (case ws_send i ''ping'' s of
                  Threw e s1 \<Rightarrow> Threw e s1
                | Ok s1 \<Rightarrow>
                    let (h, s2) = setTimeout PongTimeout 10000 s1
                    in Ok (s2\<lparr>pongTimeout := Some h\<rparr>))
          else Ok s)"

definition handleError :: "client_B \<Rightarrow> client_B" where
  "handleError s = console_error ''WebSocket Error:'' s"

text \<open>The callback of the pong timeout:
  \<^verbatim>\<open>(this.ws as any)?.terminate?.() || this.ws?.close()\<close>; \<open>terminate\<close> returns
  \<open>undefined\<close>, so \<open>close\<close> is called after it, unless it has thrown.\<close>

definition pong_timeout :: "platform \<Rightarrow> client_B \<Rightarrow> client_B result" where
  "pong_timeout pf s =
     (let s1 = console_warn ''WebSocket Pong timeout. Terminating connection...'' s
      in case ws s1 of
           None \<Rightarrow> Ok s1
         | Some i \<Rightarrow>
             if has_terminate pf
             then (case ws_terminate pf handleError i s1 of
                     Threw e s2 \<Rightarrow> Threw e s2
                   | Ok s2 \<Rightarrow> ws_close pf handleError i s2)
             else ws_close pf handleError i s1)"

definition scheduleReconnect_B :: "client_B \<Rightarrow> client_B" where
  "scheduleReconnect_B s =
     (case reconnectTimer s of
        Some t \<Rightarrow> s
      | None \<Rightarrow>
          let (h, s1) = setTimeout Reconnect RECONNECT_DELAY s
          in s1\<lparr>reconnectTimer := Some h\<rparr>)"

definition clearTimers :: "client_B \<Rightarrow> client_B" where
  "clearTimers s =
     (case reconnectTimer s of
        Some t \<Rightarrow> (clearTimeout t s)\<lparr>reconnectTimer := None\<rparr>
      | None \<Rightarrow> s)"

text \<open>\<open>cleanupWS\<close> empties the four slots and then calls \<open>close()\<close>; if \<open>close()\<close>
  throws, \<open>this.ws = null\<close> is not reached.\<close>

definition cleanupWS :: "platform \<Rightarrow> client_B \<Rightarrow> client_B result" where
  "cleanupWS pf s =
     (case ws s of
        None \<Rightarrow> Ok s
      | Some i \<Rightarrow>
          let s1 = sock_upd i (set_handlers False) s
          in if ready s1 i \<noteq> Some WS_CLOSED
             then (case ws_close pf handleError i s1 of
                     Threw e s2 \<Rightarrow> Threw e s2
                   | Ok s2 \<Rightarrow> Ok (s2\<lparr>ws := None\<rparr>))
             else Ok (s1\<lparr>ws := None\<rparr>))"

text \<open>\<open>connect\<close> calls \<open>cleanupWS\<close> before its \<open>try\<close>: what \<open>cleanupWS\<close> throws
  leaves \<open>connect\<close>.\<close>

definition connect_B :: "platform \<Rightarrow> client_B \<Rightarrow> client_B result" where
  "connect_B pf s =
     (let s1 = clearTimers s
      in case cleanupWS pf s1 of
           Threw e s2 \<Rightarrow> Threw e s2
         | Ok s2 \<Rightarrow>
             let s3 = notifyStatusChange CONNECTING s2
             in case new_WebSocket pf (host s3) s3 of
                  (Some i, s4) \<Rightarrow>
                    Ok (console_log ''tmzhix''
                          (sock_upd i (set_handlers True) (s4\<lparr>ws := Some i\<rparr>)))
                | (None, s4) \<Rightarrow>
                    Ok (scheduleReconnect_B
                          (console_error ''Connection attempt failed:'' s4)))"

definition handleOpen :: "client_B \<Rightarrow> client_B" where
  "handleOpen s =
     (let s1 = console_log ''Connected to Polymarket WS'' s;
          s2 = notifyStatusChange CONNECTED s1;
          s3 = startPinging s2;
          s4 = console_log ''1'' s3
      in call_onConnect s4)"

definition handleMessage :: "platform \<Rightarrow> ws_data \<Rightarrow> client_B \<Rightarrow> client_B" where
  "handleMessage pf d s =
     (case d of
        Binary b \<Rightarrow> s
      | Text str \<Rightarrow>
          if 0 < length str
          then if str = ''pong'' then clearPongTimeout s
               else (case JSON_parse pf str of
                       None \<Rightarrow> console_error ''Failed to parse message:'' s
                     | Some m \<Rightarrow> if has_onCustomMessage s then call_onCustomMessage m s else s)
          else s)"

definition handleClose :: "client_B \<Rightarrow> client_B" where
  "handleClose s =
     (let s1 = console_log ''close'' s;
          s2 = notifyStatusChange DISCONNECTED s1;
          s3 = stopPinging s2
      in if autoReconnect s3
         then scheduleReconnect_B (console_warn ''Connection closed. Reconnecting...'' s3)
         else s3)"

definition sendSafe :: "json \<Rightarrow> client_B \<Rightarrow> client_B result" where
  "sendSafe payload s =
     (case ws s of
        None \<Rightarrow> Ok (console_error ''Cannot send message: WebSocket not open.'' s)
      | Some i \<Rightarrow>
          if ready s i = Some WS_OPEN then ws_send i (JSON_stringify payload) s
          else Ok (console_error ''Cannot send message: WebSocket not open.'' s))"

definition subscribe_B :: "(string \<times> json) list \<Rightarrow> client_B \<Rightarrow> client_B result" where
  "subscribe_B msg s = sendSafe (envelope ''subscribe'' msg) s"

definition unsubscribe_B :: "(string \<times> json) list \<Rightarrow> client_B \<Rightarrow> client_B result" where
  "unsubscribe_B msg s = sendSafe (envelope ''unsubscribe'' msg) s"

definition disconnect_B :: "platform \<Rightarrow> client_B \<Rightarrow> client_B result" where
  "disconnect_B pf s =
     (case cleanupWS pf (stopPinging (clearTimers (s\<lparr>autoReconnect := False\<rparr>))) of
        Threw e s1 \<Rightarrow> Threw e s1
      | Ok s1 \<Rightarrow> Ok (notifyStatusChange DISCONNECTED s1))"

text \<open>One event on an instance of draft B. A socket event reaches a handler only
  through a slot that is set; an error event that finds its slot empty is an
  uncaught exception where the platform makes it one. A socket opens once, from
  CONNECTING, and closes once. What a call of the owner or a callback throws is
  recorded in \<open>thrown\<close>.\<close>

definition timer_callback_B :: "platform \<Rightarrow> timer_kind \<Rightarrow> client_B \<Rightarrow> client_B" where
  "timer_callback_B pf k s =
     (case k of
        PingInterval \<Rightarrow> settle (ping_tick s)
      | PongTimeout \<Rightarrow> settle (pong_timeout pf s)
      | Reconnect \<Rightarrow> settle (connect_B pf (s\<lparr>reconnectTimer := None\<rparr>)))"

fun step_B :: "platform \<Rightarrow> client_B \<Rightarrow> event \<Rightarrow> client_B" where
  "step_B pf s Call_connect = settle (connect_B pf s)"
| "step_B pf s Call_disconnect = settle (disconnect_B pf s)"
| "step_B pf s (Call_subscribe m) = settle (subscribe_B m s)"
| "step_B pf s (Call_unsubscribe m) = settle (unsubscribe_B m s)"
| "step_B pf s (Sock_open i) =
     (if ready s i = Some WS_CONNECTING
      then let s1 = sock_upd i (\<lambda>k. k\<lparr>readyState := WS_OPEN\<rparr>) s
           in if onopen (sockets s ! i) then handleOpen s1 else s1
      else s)"
| "step_B pf s (Sock_message i d) =
     (if (ready s i = Some WS_OPEN \<or> ready s i = Some WS_CLOSING) \<and> onmessage (sockets s ! i)
      then handleMessage pf d s else s)"
| "step_B pf s (Sock_error i) =
     (if ready s i = Some WS_CONNECTING \<or> ready s i = Some WS_OPEN
         \<or> ready s i = Some WS_CLOSING
      then settle (emit_error pf handleError i s) else s)"
| "step_B pf s (Sock_close i) =
     (if ready s i = Some WS_CONNECTING \<or> ready s i = Some WS_OPEN
         \<or> ready s i = Some WS_CLOSING
      then let s1 = sock_upd i (\<lambda>k. k\<lparr>readyState := WS_CLOSED\<rparr>) s
           in if onclose (sockets s ! i) then handleClose s1 else s1
      else s)"
| "step_B pf s (Timer_fire t) =
     (case fire_timer t s of
        None \<Rightarrow> s
      | Some (k, s1) \<Rightarrow> timer_callback_B pf k s1)"
| "step_B pf s (Elapse d) = s\<lparr>now := now s + d\<rparr>"
| "step_B pf s (Send_done k err) = s"

definition run_B :: "platform \<Rightarrow> client_B \<Rightarrow> event list \<Rightarrow> client_B" where
  "run_B pf s evs = foldl (step_B pf) s evs"

subsection \<open>Draft A: \<^verbatim>\<open>src/clients/ws-client.ts\<close>, without a liveness monitor\<close>

text \<open>\<open>send_cbs\<close> lists the callbacks given to \<open>send\<close> that have not run yet, by
  the word of their log line.\<close>

record client_A = client +
  reconnecting :: bool
  manuallyClosed :: bool
  send_cbs :: "string list"

definition constructor_A :: "args \<Rightarrow> client_A" where
  "constructor_A a =
     \<lparr>now = 0, sockets = [], calls = [], timers = [], next_timer = 1, statuses = [],
      messages = [], connected_cb = 0, console = [], thrown = [],
      host = (case arg_host a of None \<Rightarrow> DEFAULT_HOST | Some h \<Rightarrow> h),
      autoReconnect = (case arg_autoReconnect a of None \<Rightarrow> True | Some b \<Rightarrow> b),
      has_onConnect = arg_onConnect a,
      has_onCustomMessage = arg_onMessage a,
      has_onStatusChange = arg_onStatusChange a,
      ws = None,
      reconnecting = False, manuallyClosed = False, send_cbs = []\<rparr>"

definition connect_A :: "platform \<Rightarrow> client_A \<Rightarrow> client_A result" where
  "connect_A pf s =
     (let s1 = s\<lparr>manuallyClosed := False\<rparr>
      in if ws_is_open s1 then Ok s1
         else let s2 = notifyStatusChange CONNECTING s1
              in case new_WebSocket pf (host s2) s2 of
                   (None, s3) \<Rightarrow> Threw SyntaxError s3
                 | (Some i, s3) \<Rightarrow> Ok (sock_upd i (set_handlers True) (s3\<lparr>ws := Some i\<rparr>)))"

definition onOpen :: "client_A \<Rightarrow> client_A" where
  "onOpen s = call_onConnect (notifyStatusChange CONNECTED (s\<lparr>reconnecting := False\<rparr>))"

definition onMessage :: "platform \<Rightarrow> ws_data \<Rightarrow> client_A \<Rightarrow> client_A" where
  "onMessage pf d s =
     (case d of
        Binary b \<Rightarrow> s
      | Text str \<Rightarrow>
          if str = [] then s
          else if has_onCustomMessage s \<and> str_includes str ''payload''
          then (case JSON_parse pf str of
                  None \<Rightarrow> console_error ''message parse error'' s
                | Some m \<Rightarrow> call_onCustomMessage m s)
          else s)"

definition onError :: "client_A \<Rightarrow> client_A" where
  "onError s = console_error ''ws error'' (s\<lparr>reconnecting := False\<rparr>)"

definition scheduleReconnect_A :: "client_A \<Rightarrow> client_A" where
  "scheduleReconnect_A s =
     (if reconnecting s then s
      else snd (setTimeout Reconnect RECONNECT_DELAY (s\<lparr>reconnecting := True\<rparr>)))"

text \<open>The callback that \<open>scheduleReconnect\<close> gives to \<open>setTimeout\<close>.\<close>

definition reconnect_fire_A :: "platform \<Rightarrow> client_A \<Rightarrow> client_A result" where
  "reconnect_fire_A pf s = (if manuallyClosed s then Ok s else connect_A pf s)"

definition onClose :: "client_A \<Rightarrow> client_A" where
  "onClose s =
     (let s1 = console_warn ''ws closed'' s;
          s2 = notifyStatusChange DISCONNECTED s1;
          s3 = s2\<lparr>reconnecting := False\<rparr>
      in if \<not> autoReconnect s3 \<or> manuallyClosed s3 then s3 else scheduleReconnect_A s3)"

definition disconnect_A :: "platform \<Rightarrow> client_A \<Rightarrow> client_A result" where
  "disconnect_A pf s =
     (let s1 = s\<lparr>autoReconnect := False, manuallyClosed := True\<rparr>
      in case ws s1 of
           None \<Rightarrow> Ok s1
         | Some i \<Rightarrow> if ready s1 i = Some WS_OPEN then ws_close pf onError i s1 else Ok s1)"

text \<open>\<open>subscribe\<close> and \<open>unsubscribe\<close> differ in one word only.\<close>

definition send_action_A :: "string \<Rightarrow> (string \<times> json) list \<Rightarrow> client_A \<Rightarrow> client_A result" where
  "send_action_A a msg s =
     (case ws s of
        None \<Rightarrow> Ok (console_warn (a @ '' failed: socket not open'') s)
      | Some i \<Rightarrow>
          if ready s i \<noteq> Some WS_OPEN
          then Ok (console_warn (a @ '' failed: socket not open'') s)
          else (case ws_send i (JSON_stringify (envelope a msg)) s of
                  Threw e s1 \<Rightarrow> Threw e s1
                | Ok s1 \<Rightarrow> Ok (s1\<lparr>send_cbs := send_cbs s1 @ [a]\<rparr>)))"

definition subscribe_A :: "(string \<times> json) list \<Rightarrow> client_A \<Rightarrow> client_A result" where
  "subscribe_A msg s = send_action_A ''subscribe'' msg s"

definition unsubscribe_A :: "(string \<times> json) list \<Rightarrow> client_A \<Rightarrow> client_A result" where
  "unsubscribe_A msg s = send_action_A ''unsubscribe'' msg s"

text \<open>The callback given to \<open>send\<close>, called with an error or without.\<close>

definition send_callback_A :: "platform \<Rightarrow> string \<Rightarrow> bool \<Rightarrow> client_A \<Rightarrow> client_A result" where
  "send_callback_A pf a err s =
     (if err
      then let s1 = console_error (a @ '' error'') s
           in case ws s1 of None \<Rightarrow> Ok s1 | Some i \<Rightarrow> ws_close pf onError i s1
      else Ok s)"

fun step_A :: "platform \<Rightarrow> client_A \<Rightarrow> event \<Rightarrow> client_A" where
  "step_A pf s Call_connect = settle (connect_A pf s)"
| "step_A pf s Call_disconnect = settle (disconnect_A pf s)"
| "step_A pf s (Call_subscribe m) = settle (subscribe_A m s)"
| "step_A pf s (Call_unsubscribe m) = settle (unsubscribe_A m s)"
| "step_A pf s (Sock_open i) =
     (if ready s i = Some WS_CONNECTING
      then let s1 = sock_upd i (\<lambda>k. k\<lparr>readyState := WS_OPEN\<rparr>) s
           in if onopen (sockets s ! i) then onOpen s1 else s1
      else s)"
| "step_A pf s (Sock_message i d) =
     (if (ready s i = Some WS_OPEN \<or> ready s i = Some WS_CLOSING) \<and> onmessage (sockets s ! i)
      then onMessage pf d s else s)"
| "step_A pf s (Sock_error i) =
     (if ready s i = Some WS_CONNECTING \<or> ready s i = Some WS_OPEN
         \<or> ready s i = Some WS_CLOSING
      then settle (emit_error pf onError i s) else s)"
| "step_A pf s (Sock_close i) =
     (if ready s i = Some WS_CONNECTING \<or> ready s i = Some WS_OPEN
         \<or> ready s i = Some WS_CLOSING
      then let s1 = sock_upd i (\<lambda>k. k\<lparr>readyState := WS_CLOSED\<rparr>) s
           in if onclose (sockets s ! i) then onClose s1 else s1
      else s)"
| "step_A pf s (Timer_fire t) =
     (case fire_timer t s of
        None \<Rightarrow> s
      | Some (k, s1) \<Rightarrow> if k = Reconnect then settle (reconnect_fire_A pf s1) else s1)"
| "step_A pf s (Elapse d) = s\<lparr>now := now s + d\<rparr>"
| "step_A pf s (Send_done k err) =
     (if k < length (send_cbs s)
      then settle (send_callback_A pf (send_cbs s ! k) err
             (s\<lparr>send_cbs := take k (send_cbs s) @ drop (Suc k) (send_cbs s)\<rparr>))
      else s)"

definition run_A :: "platform \<Rightarrow> client_A \<Rightarrow> event list \<Rightarrow> client_A" where
  "run_A pf s evs = foldl (step_A pf) s evs"

subsection \<open>A concrete platform\<close>

text \<open>A platform to run the drafts on, after version 7 of the \<open>ws\<close> package: a
  socket with \<open>terminate\<close>, whose \<open>close()\<close> during the handshake emits the error
  of the abort before it returns and whose error event without a listener is
  an exception; a constructor that accepts the URLs that begin with \<open>ws://\<close> or
  \<open>wss://\<close>; and \<open>JSON.parse\<close> on the texts whose numbers are integers and whose
  strings have no escape by code point (a fraction or an exponent is beyond
  \<^typ>\<open>json\<close>; both are refused here). The members of an object are created in
  the order of the text, so a repeated key keeps its last value.\<close>

definition is_ws :: "char \<Rightarrow> bool" where
  "is_ws c = (c = CHR '' '' \<or> c = CHR 0x09 \<or> c = CHR 0x0A \<or> c = CHR 0x0D)"

definition skip_ws :: "string \<Rightarrow> string" where
  "skip_ws str = dropWhile is_ws str"

definition is_digit :: "char \<Rightarrow> bool" where
  "is_digit c = (48 \<le> (of_char c :: nat) \<and> (of_char c :: nat) \<le> 57)"

definition unescape :: "char \<Rightarrow> char option" where
  "unescape e =
     (if e = CHR 0x22 \<or> e = CHR 0x5C \<or> e = CHR ''/'' then Some e
      else if e = CHR ''b'' then Some (CHR 0x08)
      else if e = CHR ''f'' then Some (CHR 0x0C)
      else if e = CHR ''n'' then Some (CHR 0x0A)
      else if e = CHR ''r'' then Some (CHR 0x0D)
      else if e = CHR ''t'' then Some (CHR 0x09)
      else None)"

text \<open>The characters of a string after its opening quote, and the rest of the
  text after its closing quote.\<close>

fun parse_chars :: "string \<Rightarrow> (string \<times> string) option" where
  "parse_chars [] = None"
| "parse_chars (c # cs) =
     (if c = CHR 0x22 then Some ([], cs)
      else if (of_char c :: nat) < 32 then None
      else if c \<noteq> CHR 0x5C
        then (case parse_chars cs of None \<Rightarrow> None | Some (str, rest) \<Rightarrow> Some (c # str, rest))
      else (case cs of
              [] \<Rightarrow> None
            | e # r \<Rightarrow>
                (case unescape e of
                   None \<Rightarrow> None
                 | Some x \<Rightarrow>
                     (case parse_chars r of
                        None \<Rightarrow> None
                      | Some (str, rest) \<Rightarrow> Some (x # str, rest)))))"

definition parse_number :: "string \<Rightarrow> (json \<times> string) option" where
  "parse_number str =
     (let neg = (str \<noteq> [] \<and> hd str = CHR ''-'');
          s1 = (if neg then tl str else str);
          ds = takeWhile is_digit s1;
          rest = dropWhile is_digit s1
      in if ds = [] \<or> (hd ds = CHR ''0'' \<and> 1 < length ds) then None
         else if rest \<noteq> [] \<and> (hd rest = CHR ''.'' \<or> hd rest = CHR ''e'' \<or> hd rest = CHR ''E'')
           then None
         else Some (JNum (if neg then - index_of ds else index_of ds), rest))"

fun parse_value :: "nat \<Rightarrow> string \<Rightarrow> (json \<times> string) option"
  and parse_elems :: "nat \<Rightarrow> string \<Rightarrow> (json list \<times> string) option"
  and parse_members :: "nat \<Rightarrow> string \<Rightarrow> ((string \<times> json) list \<times> string) option" where
  "parse_value 0 str = None"
| "parse_value (Suc n) str =
     (case skip_ws str of
        [] \<Rightarrow> None
      | c # r \<Rightarrow>
          if c = CHR ''{''
          then (if take 1 (skip_ws r) = ''}'' then Some (JObj [], drop 1 (skip_ws r))
                else (case parse_members n r of
                        None \<Rightarrow> None
                      | Some (kvs, rest) \<Rightarrow> Some (JObj (spread [] kvs), rest)))
          else if c = CHR ''[''
          then (if take 1 (skip_ws r) = '']'' then Some (JArr [], drop 1 (skip_ws r))
                else (case parse_elems n r of
                        None \<Rightarrow> None
                      | Some (xs, rest) \<Rightarrow> Some (JArr xs, rest)))
          else if c = CHR 0x22
          then (case parse_chars r of
                  None \<Rightarrow> None
                | Some (x, rest) \<Rightarrow> Some (JStr x, rest))
          else if take 4 (c # r) = ''null'' then Some (JNull, drop 4 (c # r))
          else if take 4 (c # r) = ''true'' then Some (JBool True, drop 4 (c # r))
          else if take 5 (c # r) = ''false'' then Some (JBool False, drop 5 (c # r))
          else parse_number (c # r))"
| "parse_elems 0 str = None"
| "parse_elems (Suc n) str =
     (case parse_value n str of
        None \<Rightarrow> None
      | Some (v, r) \<Rightarrow>
          (case skip_ws r of
             [] \<Rightarrow> None
           | c # r1 \<Rightarrow>
               if c = CHR '']'' then Some ([v], r1)
               else if c = CHR '',''
               then (case parse_elems n r1 of
                       None \<Rightarrow> None
                     | Some (vs, r2) \<Rightarrow> Some (v # vs, r2))
               else None))"
| "parse_members 0 str = None"
| "parse_members (Suc n) str =
     (case skip_ws str of
        [] \<Rightarrow> None
      | c # r \<Rightarrow>
          if c \<noteq> CHR 0x22 then None
          else (case parse_chars r of
                  None \<Rightarrow> None
                | Some (k, r1) \<Rightarrow>
                    if take 1 (skip_ws r1) \<noteq> '':'' then None
                    else (case parse_value n (drop 1 (skip_ws r1)) of
                            None \<Rightarrow> None
                          | Some (v, r2) \<Rightarrow>
                              (case skip_ws r2 of
                                 [] \<Rightarrow> None
                               | c2 # r3 \<Rightarrow>
                                   if c2 = CHR ''}'' then Some ([(k, v)], r3)
                                   else if c2 = CHR '',''
                                   then (case parse_members n r3 of
                                           None \<Rightarrow> None
                                         | Some (kvs, r4) \<Rightarrow> Some ((k, v) # kvs, r4))
                                   else None))))"

definition JSON_parse_text :: "string \<Rightarrow> json option" where
  "JSON_parse_text str =
     (case parse_value (Suc (length str)) str of
        None \<Rightarrow> None
      | Some (v, rest) \<Rightarrow> if skip_ws rest = [] then Some v else None)"

definition node_ws :: platform where
  "node_ws =
     \<lparr>JSON_parse = JSON_parse_text,
      url_ok = (\<lambda>u. take 5 u = ''ws://'' \<or> take 6 u = ''wss://''),
      has_terminate = True,
      abort_emits_error = True,
      unheard_error_throws = True\<rparr>"

text \<open>The arguments of an owner who gives all three callbacks and nothing else.\<close>

definition callbacks_only :: args where
  "callbacks_only =
     \<lparr>arg_onConnect = True, arg_onMessage = True, arg_onStatusChange = True,
      arg_host = None, arg_pingInterval = None, arg_autoReconnect = None\<rparr>"

text \<open>Both drafts after \<open>connect()\<close> and the open event of the socket, on the
  concrete platform.\<close>

definition open_A :: client_A where
  "open_A = run_A node_ws (constructor_A callbacks_only) [Call_connect, Sock_open 0]"

definition open_B :: client_B where
  "open_B = run_B node_ws (constructor_B callbacks_only) [Call_connect, Sock_open 0]"

subsection \<open>Views of the state\<close>

text \<open>Functions on sockets and timers in which the effect of a method is stated,
  the sets an invariant of draft B speaks about (the sockets that still carry a
  handler, the pending timers of one kind), and the states after
  \<open>disconnect()\<close>.\<close>

definition upd_at :: "nat \<Rightarrow> (socket \<Rightarrow> socket) \<Rightarrow> socket list \<Rightarrow> socket list" where
  "upd_at i f ss = (if i < length ss then ss[i := f (ss ! i)] else ss)"

definition closing :: "socket \<Rightarrow> socket" where
  "closing k = (if readyState k = WS_CONNECTING \<or> readyState k = WS_OPEN
                then k\<lparr>readyState := WS_CLOSING\<rparr> else k)"

definition drop_timer :: "nat option \<Rightarrow> timer list \<Rightarrow> timer list" where
  "drop_timer h ts = filter (\<lambda>x. Some (tid x) \<noteq> h) ts"

definition detach_socket :: "nat option \<Rightarrow> socket list \<Rightarrow> socket list" where
  "detach_socket w ss =
     (case w of None \<Rightarrow> ss | Some i \<Rightarrow> upd_at i (\<lambda>k. closing (set_handlers False k)) ss)"


definition notified :: "bool \<Rightarrow> ConnectionStatus \<Rightarrow> ConnectionStatus list" where
  "notified b st = (if b then [st] else [])"

text \<open>\<open>this.ws\<close> is set and its handshake is not over.\<close>

definition ws_connecting :: "'a client_scheme \<Rightarrow> bool" where
  "ws_connecting s = (case ws s of None \<Rightarrow> False | Some i \<Rightarrow> ready s i = Some WS_CONNECTING)"

definition att_set :: "socket list \<Rightarrow> nat set" where
  "att_set ss = {j. j < length ss \<and> attached (ss ! j)}"

definition pend :: "timer_kind \<Rightarrow> timer list \<Rightarrow> nat set" where
  "pend k ts = {tid x | x. x \<in> set ts \<and> kind x = k}"

definition inv_B :: "client_B \<Rightarrow> bool" where
  "inv_B s = (att_set (sockets s) \<subseteq> set_option (ws s)
              \<and> pend Reconnect (timers s) \<subseteq> set_option (reconnectTimer s)
              \<and> pend PingInterval (timers s) \<subseteq> set_option (pingTimer s)
              \<and> (\<forall>x \<in> set (timers s). kind x = Reconnect \<longrightarrow> period x = None))"

definition quiet_B :: "client_B \<Rightarrow> bool" where
  "quiet_B s = (ws s = None \<and> reconnectTimer s = None \<and> pingTimer s = None
                \<and> att_set (sockets s) = {}
                \<and> (\<forall>x \<in> set (timers s). kind x = PongTimeout))"

text \<open>In a quiet state nothing but \<open>connect()\<close> creates a socket or notifies a
  status other than DISCONNECTED.\<close>

definition only_disconnected :: "client_B \<Rightarrow> client_B \<Rightarrow> bool" where
  "only_disconnected s s' =
     (length (sockets s') = length (sockets s)
      \<and> (\<exists>xs. statuses s' = statuses s @ xs \<and> set xs \<subseteq> {DISCONNECTED}))"

definition closed_A :: "client_A \<Rightarrow> bool" where
  "closed_A s = (manuallyClosed s \<and> \<not> autoReconnect s)"

definition no_attempt :: "client_A \<Rightarrow> client_A \<Rightarrow> bool" where
  "no_attempt s s' =
     (length (sockets s') = length (sockets s)
      \<and> (\<exists>xs. statuses s' = statuses s @ xs \<and> CONNECTING \<notin> set xs))"

definition force_close :: "nat option \<Rightarrow> socket list \<Rightarrow> socket list" where
  "force_close w ss = (case w of None \<Rightarrow> ss | Some i \<Rightarrow> upd_at i closing ss)"

section \<open>Properties\<close>

subsection \<open>Unfolding the model\<close>

lemmas runtime_defs =
  ready_def sock_upd_def new_WebSocket_def emit_error_def begin_closing_def closing_call_def
  ws_close_def ws_terminate_def
  ws_send_def timer_delay_def setTimeout_def setInterval_def clearTimeout_def clearInterval_def
  fire_timer_def console_log_def console_warn_def console_error_def settle_def
  notifyStatusChange_def call_onConnect_def call_onCustomMessage_def ws_is_open_def
  set_handlers_def DEFAULT_HOST_def DEFAULT_PING_INTERVAL_def RECONNECT_DELAY_def

lemmas B_defs =
  constructor_B_def or_string_def or_number_def clearPongTimeout_def stopPinging_def
  startPinging_def ping_tick_def pong_timeout_def scheduleReconnect_B_def clearTimers_def
  cleanupWS_def connect_B_def handleOpen_def handleMessage_def handleError_def handleClose_def
  sendSafe_def subscribe_B_def unsubscribe_B_def disconnect_B_def timer_callback_B_def run_B_def

lemmas A_defs =
  constructor_A_def connect_A_def onOpen_def onMessage_def onError_def scheduleReconnect_A_def
  reconnect_fire_A_def onClose_def disconnect_A_def send_action_A_def subscribe_A_def
  unsubscribe_A_def send_callback_A_def run_A_def

lemmas example_defs = node_ws_def callbacks_only_def

lemma constructor_A_shape:
  "\<exists>h ar. constructor_A a =
     \<lparr>now = 0, sockets = [], calls = [], timers = [], next_timer = 1, statuses = [],
      messages = [], connected_cb = 0, console = [], thrown = [],
      host = h, autoReconnect = ar, has_onConnect = arg_onConnect a,
      has_onCustomMessage = arg_onMessage a, has_onStatusChange = arg_onStatusChange a,
      ws = None, reconnecting = False, manuallyClosed = False, send_cbs = []\<rparr>"
  by (simp add: constructor_A_def)

lemma constructor_B_shape:
  "\<exists>h ar pi. constructor_B a =
     \<lparr>now = 0, sockets = [], calls = [], timers = [], next_timer = 1, statuses = [],
      messages = [], connected_cb = 0, console = [], thrown = [],
      host = h, autoReconnect = ar, has_onConnect = arg_onConnect a,
      has_onCustomMessage = arg_onMessage a, has_onStatusChange = arg_onStatusChange a,
      ws = None, pingInterval = pi, pingTimer = None, pongTimeout = None,
      reconnectTimer = None\<rparr>"
  by (simp add: constructor_B_def)

lemma open_A_value:
  "open_A =
     \<lparr>now = 0,
      sockets = [\<lparr>url = DEFAULT_HOST, readyState = WS_OPEN, onopen = True, onmessage = True,
                  onclose = True, onerror = True\<rparr>],
      calls = [], timers = [], next_timer = 1, statuses = [CONNECTING, CONNECTED],
      messages = [], connected_cb = 1, console = [], thrown = [],
      host = DEFAULT_HOST, autoReconnect = True, has_onConnect = True,
      has_onCustomMessage = True, has_onStatusChange = True, ws = Some 0,
      reconnecting = False, manuallyClosed = False, send_cbs = []\<rparr>"
  by (simp add: open_A_def A_defs runtime_defs example_defs Let_def)

lemma open_B_value:
  "open_B =
     \<lparr>now = 0,
      sockets = [\<lparr>url = DEFAULT_HOST, readyState = WS_OPEN, onopen = True, onmessage = True,
                  onclose = True, onerror = True\<rparr>],
      calls = [],
      timers = [\<lparr>tid = 1, kind = PingInterval, due = 5000, period = Some 5000\<rparr>],
      next_timer = 2, statuses = [CONNECTING, CONNECTED],
      messages = [], connected_cb = 1,
      console = [(LOG, ''tmzhix''), (LOG, ''Connected to Polymarket WS''), (LOG, ''1'')],
      thrown = [],
      host = DEFAULT_HOST, autoReconnect = True, has_onConnect = True,
      has_onCustomMessage = True, has_onStatusChange = True, ws = Some 0,
      pingInterval = 5000, pingTimer = Some 1, pongTimeout = None, reconnectTimer = None\<rparr>"
  by (simp add: open_B_def B_defs runtime_defs example_defs Let_def)

lemma ws_is_open_open_A: "ws_is_open open_A"
  by (simp add: open_A_value ws_is_open_def ready_def)


lemma ws_is_open_manuallyClosed [simp]:
  "ws_is_open (s\<lparr>manuallyClosed := b\<rparr>) = ws_is_open s"
  by (simp add: ws_is_open_def ready_def split: option.splits)

subsection \<open>The constructor and \<open>connect\<close>\<close>

text \<open>
  C9. In draft B (the one with the liveness monitor) the constructor computes
  \<open>args.pingInterval || DEFAULT_PING_INTERVAL\<close>: a ping interval that is absent, 0
  or \<open>NaN\<close> becomes 5000, and the interval that \<open>startPinging\<close> then arms has the
  period 5000: the given 0 neither disables the pings nor is it honoured.
\<close>

theorem falsy_pingInterval_falls_back:
  assumes "arg_pingInterval a = None \<or> arg_pingInterval a = Some (Num 0)
           \<or> arg_pingInterval a = Some NaN"
  shows "pingInterval (constructor_B a) = 5000
         \<and> timers (startPinging (constructor_B a))
             = [\<lparr>tid = 1, kind = PingInterval, due = 5000, period = Some 5000\<rparr>]"
  using assms by (auto simp: B_defs runtime_defs Let_def)

theorem falsy_pingInterval_falls_back_witness:
  "arg_pingInterval (callbacks_only\<lparr>arg_pingInterval := Some (Num 0)\<rparr>) = Some (Num 0)
   \<and> pingInterval (constructor_B (callbacks_only\<lparr>arg_pingInterval := Some (Num 0)\<rparr>)) = 5000"
  using falsy_pingInterval_falls_back [of "callbacks_only\<lparr>arg_pingInterval := Some (Num 0)\<rparr>"]
  by simp

text \<open>
  C10. In draft A (the one without a liveness monitor) \<open>connect()\<close> on an instance
  whose socket is OPEN returns after resetting \<open>manuallyClosed\<close>: the state is the
  old one with that flag false, so no status is notified, no socket is created
  and the handler slots of the socket stay as they are.
\<close>

theorem connect_while_open_only_resets_flag:
  assumes "ws_is_open s"
  shows "connect_A pf s = Ok (s\<lparr>manuallyClosed := False\<rparr>)"
  using assms by (simp add: connect_A_def Let_def)

theorem connect_while_open_only_resets_flag_witness:
  "ws_is_open open_A \<and> connect_A node_ws open_A = Ok (open_A\<lparr>manuallyClosed := False\<rparr>)"
  using connect_while_open_only_resets_flag [OF ws_is_open_open_A, of node_ws]
    ws_is_open_open_A by simp

text \<open>
  C8. After the constructor, one \<open>connect()\<close> whose socket the platform accepts,
  followed by the open event of that socket, makes the owner's status callback
  see CONNECTING and then CONNECTED, each once and nothing else; this holds in
  both drafts.
\<close>

theorem connect_then_open_statuses:
  assumes "arg_onStatusChange a"
    and "url_ok pf (host (constructor_A a))" and "url_ok pf (host (constructor_B a))"
  shows "statuses (run_A pf (constructor_A a) [Call_connect]) = [CONNECTING]
       \<and> statuses (run_A pf (constructor_A a) [Call_connect, Sock_open 0]) = [CONNECTING, CONNECTED]
       \<and> statuses (run_B pf (constructor_B a) [Call_connect]) = [CONNECTING]
       \<and> statuses (run_B pf (constructor_B a) [Call_connect, Sock_open 0]) = [CONNECTING, CONNECTED]"
proof -
  obtain h ar where a: "constructor_A a =
     \<lparr>now = 0, sockets = [], calls = [], timers = [], next_timer = 1, statuses = [],
      messages = [], connected_cb = 0, console = [], thrown = [],
      host = h, autoReconnect = ar, has_onConnect = arg_onConnect a,
      has_onCustomMessage = arg_onMessage a, has_onStatusChange = arg_onStatusChange a,
      ws = None, reconnecting = False, manuallyClosed = False, send_cbs = []\<rparr>"
    using constructor_A_shape by blast
  obtain h' ar' pi where b: "constructor_B a =
     \<lparr>now = 0, sockets = [], calls = [], timers = [], next_timer = 1, statuses = [],
      messages = [], connected_cb = 0, console = [], thrown = [],
      host = h', autoReconnect = ar', has_onConnect = arg_onConnect a,
      has_onCustomMessage = arg_onMessage a, has_onStatusChange = arg_onStatusChange a,
      ws = None, pingInterval = pi, pingTimer = None, pongTimeout = None,
      reconnectTimer = None\<rparr>"
    using constructor_B_shape by blast
  from assms(2) have u: "url_ok pf h" unfolding a by simp
  from assms(3) have u': "url_ok pf h'" unfolding b by simp
  have "statuses (run_A pf (constructor_A a) [Call_connect]) = [CONNECTING]
      \<and> statuses (run_A pf (constructor_A a) [Call_connect, Sock_open 0])
          = [CONNECTING, CONNECTED]"
    unfolding a using assms(1) u
    by (simp add: run_A_def connect_A_def onOpen_def runtime_defs Let_def)
  moreover have "statuses (run_B pf (constructor_B a) [Call_connect]) = [CONNECTING]
      \<and> statuses (run_B pf (constructor_B a) [Call_connect, Sock_open 0])
          = [CONNECTING, CONNECTED]"
    unfolding b using assms(1) u'
    by (simp add: run_B_def connect_B_def clearTimers_def cleanupWS_def handleOpen_def
        startPinging_def stopPinging_def clearPongTimeout_def runtime_defs Let_def)
  ultimately show ?thesis by simp
qed

theorem connect_then_open_statuses_witness:
  "arg_onStatusChange callbacks_only
   \<and> url_ok node_ws (host (constructor_A callbacks_only))
   \<and> url_ok node_ws (host (constructor_B callbacks_only))
   \<and> statuses (run_A node_ws (constructor_A callbacks_only) [Call_connect, Sock_open 0])
       = [CONNECTING, CONNECTED]
   \<and> statuses (run_B node_ws (constructor_B callbacks_only) [Call_connect, Sock_open 0])
       = [CONNECTING, CONNECTED]"
proof -
  have 1: "arg_onStatusChange callbacks_only"
    by (simp add: callbacks_only_def)
  have 2: "url_ok node_ws (host (constructor_A callbacks_only))"
    by (simp add: example_defs constructor_A_def DEFAULT_HOST_def)
  have 3: "url_ok node_ws (host (constructor_B callbacks_only))"
    by (simp add: example_defs constructor_B_def or_string_def DEFAULT_HOST_def)
  show ?thesis using connect_then_open_statuses [OF 1 2 3] 1 2 3 by simp
qed

subsection \<open>Sending while the socket is not open\<close>

text \<open>
  C7. \<open>subscribe(msg)\<close> and \<open>unsubscribe(msg)\<close> on an instance whose socket is
  missing or not OPEN return normally (\<open>Ok\<close>: nothing is thrown to the caller)
  in a state that differs from the old one by one console line only: a warning
  in draft A, an error line in draft B. So no frame reaches a socket (\<open>calls\<close>
  is unchanged) and the message is stored nowhere for a later delivery.
\<close>

theorem send_when_not_open:
  assumes "\<not> ws_is_open a" and "\<not> ws_is_open b"
  shows "subscribe_A msg a
           = Ok (a\<lparr>console := console a @ [(WARN, ''subscribe failed: socket not open'')]\<rparr>)
       \<and> unsubscribe_A msg a
           = Ok (a\<lparr>console := console a @ [(WARN, ''unsubscribe failed: socket not open'')]\<rparr>)
       \<and> subscribe_B msg b
           = Ok (b\<lparr>console := console b @ [(ERROR, ''Cannot send message: WebSocket not open.'')]\<rparr>)
       \<and> unsubscribe_B msg b
           = Ok (b\<lparr>console := console b @ [(ERROR, ''Cannot send message: WebSocket not open.'')]\<rparr>)"
  using assms
  by (simp add: subscribe_A_def unsubscribe_A_def send_action_A_def subscribe_B_def
      unsubscribe_B_def sendSafe_def ws_is_open_def console_warn_def console_error_def
      split: option.splits)

theorem send_when_not_open_witness:
  "\<not> ws_is_open (constructor_A callbacks_only) \<and> \<not> ws_is_open (constructor_B callbacks_only)
   \<and> calls (state_of (subscribe_A [(''topic'', JStr ''X'')] (constructor_A callbacks_only))) = []
   \<and> threw (subscribe_A [(''topic'', JStr ''X'')] (constructor_A callbacks_only)) = None
   \<and> calls (state_of (subscribe_B [(''topic'', JStr ''X'')] (constructor_B callbacks_only))) = []
   \<and> threw (subscribe_B [(''topic'', JStr ''X'')] (constructor_B callbacks_only)) = None"
proof -
  have 1: "\<not> ws_is_open (constructor_A callbacks_only)"
    by (simp add: ws_is_open_def constructor_A_def)
  have 2: "\<not> ws_is_open (constructor_B callbacks_only)"
    by (simp add: ws_is_open_def constructor_B_def)
  show ?thesis
    using send_when_not_open [OF 1 2, of "[(''topic'', JStr ''X'')]"] 1 2
    by (simp add: constructor_A_def constructor_B_def)
qed

subsection \<open>The message dispatcher\<close>

lemma parse_a1: \<open>JSON_parse node_ws ''{"a":1}'' = Some (JObj [(''a'', JNum 1)])\<close>
proof -
  have \<open>JSON_parse_text ''{"a":1}'' = Some (JObj [(''a'', JNum 1)])\<close> by code_simp
  then show ?thesis by (simp add: node_ws_def)
qed

lemma parse_payload1: \<open>JSON_parse node_ws ''{"payload":1}'' = Some (JObj [(''payload'', JNum 1)])\<close>
proof -
  have \<open>JSON_parse_text ''{"payload":1}'' = Some (JObj [(''payload'', JNum 1)])\<close> by code_simp
  then show ?thesis by (simp add: node_ws_def)
qed

lemma parse_empty: \<open>JSON_parse node_ws [] = None\<close>
proof -
  have \<open>JSON_parse_text [] = None\<close> by code_simp
  then show ?thesis by (simp add: node_ws_def)
qed

lemma includes_a1: \<open>\<not> str_includes ''{"a":1}'' ''payload''\<close>
  by simp

lemma includes_payload1: \<open>str_includes ''{"payload":1}'' ''payload''\<close>
  by simp


text \<open>
  C2, as the code has it. In draft B the pong token never reaches the message
  callback, an empty text frame is ignored without any report, and every other
  text frame is given to \<open>JSON.parse\<close>: the parsed value goes to the message
  callback once (when the owner gave one), a failure is one error line on the
  console and nothing else, so the socket is not closed. Draft A parses only
  the frames that contain the text \<open>payload\<close> (and only when the owner gave a
  message callback): such a frame is delivered once or reported; every other
  frame, the pong token and \<open>{"a":1}\<close> among them, is dropped without a report.
\<close>

theorem message_dispatch:
  \<open>messages (handleMessage pf (Text ''pong'') b) = messages b
   \<and> handleMessage pf (Text []) b = b
   \<and> (str \<noteq> [] \<and> str \<noteq> ''pong'' \<longrightarrow>
        handleMessage pf (Text str) b =
          (case JSON_parse pf str of
             Some m \<Rightarrow> if has_onCustomMessage b then b\<lparr>messages := messages b @ [m]\<rparr> else b
           | None \<Rightarrow> b\<lparr>console := console b @ [(ERROR, ''Failed to parse message:'')]\<rparr>))
   \<and> (\<not> (has_onCustomMessage a \<and> str_includes str ''payload'') \<longrightarrow>
        onMessage pf (Text str) a = a)
   \<and> (has_onCustomMessage a \<and> str_includes str ''payload'' \<longrightarrow>
        onMessage pf (Text str) a =
          (case JSON_parse pf str of
             Some m \<Rightarrow> a\<lparr>messages := messages a @ [m]\<rparr>
           | None \<Rightarrow> a\<lparr>console := console a @ [(ERROR, ''message parse error'')]\<rparr>))\<close>
proof -
  have p: \<open>str_includes str ''payload'' \<Longrightarrow> str \<noteq> []\<close> by (cases str) auto
  show ?thesis
    using p
    by (auto simp: handleMessage_def onMessage_def clearPongTimeout_def clearTimeout_def
        call_onCustomMessage_def console_error_def split: option.splits)
qed


theorem message_dispatch_witness:
  \<open>''{"a":1}'' \<noteq> [] \<and> ''{"a":1}'' \<noteq> ''pong''
   \<and> handleMessage node_ws (Text ''{"a":1}'') open_B
       = open_B\<lparr>messages := [JObj [(''a'', JNum 1)]]\<rparr>
   \<and> \<not> (has_onCustomMessage open_A \<and> str_includes ''{"a":1}'' ''payload'')
   \<and> onMessage node_ws (Text ''{"a":1}'') open_A = open_A
   \<and> has_onCustomMessage open_A \<and> str_includes ''{"payload":1}'' ''payload''
   \<and> onMessage node_ws (Text ''{"payload":1}'') open_A
       = open_A\<lparr>messages := [JObj [(''payload'', JNum 1)]]\<rparr>\<close>
  using message_dispatch [where pf = node_ws and b = open_B and a = open_A
      and str = \<open>''{"a":1}''\<close>]
    message_dispatch [where pf = node_ws and b = open_B and a = open_A
      and str = \<open>''{"payload":1}''\<close>]
  by (simp add: parse_a1 parse_payload1 open_A_value open_B_value)


text \<open>C2 as stated fails: draft A does not deliver the frame \<open>{"a":1}\<close>, which
  parses, and draft B reports nothing for the empty text frame, which does not
  parse.\<close>

theorem message_dispatch_counterexample:
  \<open>JSON_parse node_ws ''{"a":1}'' = Some (JObj [(''a'', JNum 1)])
   \<and> messages (run_A node_ws (constructor_A callbacks_only)
        [Call_connect, Sock_open 0, Sock_message 0 (Text ''{"a":1}'')]) = []
   \<and> JSON_parse node_ws [] = None
   \<and> console (run_B node_ws (constructor_B callbacks_only)
        [Call_connect, Sock_open 0, Sock_message 0 (Text [])])
      = console (run_B node_ws (constructor_B callbacks_only) [Call_connect, Sock_open 0])\<close>
proof -
  have a: \<open>run_A node_ws (constructor_A callbacks_only)
        [Call_connect, Sock_open 0, Sock_message 0 (Text ''{"a":1}'')]
      = step_A node_ws open_A (Sock_message 0 (Text ''{"a":1}''))\<close>
    by (simp add: open_A_def run_A_def)
  have b: \<open>run_B node_ws (constructor_B callbacks_only)
        [Call_connect, Sock_open 0, Sock_message 0 (Text [])]
      = step_B node_ws open_B (Sock_message 0 (Text []))\<close>
    by (simp add: open_B_def run_B_def)
  have c: \<open>run_B node_ws (constructor_B callbacks_only) [Call_connect, Sock_open 0] = open_B\<close>
    by (simp add: open_B_def)
  show ?thesis
    unfolding a b c
    by (simp add: parse_a1 parse_empty open_A_value open_B_value onMessage_def handleMessage_def
        ready_def)
qed

subsection \<open>The control envelope\<close>

lemma map_of_set_value:
  "map_of (map (\<lambda>(k', v'). if k' = k then (k', v) else (k', v')) xs) k'
     = (if k' = k then map_option (\<lambda>_. v) (map_of xs k) else map_of xs k')"
  by (induction xs) auto

lemma keys_set_value [simp]:
  "map (fst \<circ> (\<lambda>(k', v'). if k' = k then (k', v) else (k', v'))) xs = map fst xs"
  by (induction xs) auto

lemma takeWhile_keys:
  "k \<notin> fst ` set obj \<Longrightarrow> k \<notin> fst ` set (takeWhile P obj)"
  by (auto dest: set_takeWhileD)

lemma dropWhile_keys:
  "k \<notin> fst ` set obj \<Longrightarrow> k \<notin> fst ` set (dropWhile P obj)"
  by (auto dest: set_dropWhileD)

lemma map_of_insert_between:
  assumes "k \<notin> fst ` set xs"
  shows "map_of (xs @ [(k, v)] @ ys) = (map_of (xs @ ys))(k \<mapsto> v)"
  using assms by (induction xs) (auto simp: fun_eq_iff)

lemma distinct_insert_between:
  "distinct (map fst (xs @ ys)) \<Longrightarrow> k \<notin> fst ` set xs \<Longrightarrow> k \<notin> fst ` set ys
   \<Longrightarrow> distinct (map fst (xs @ [(k, v)] @ ys))"
  by auto

lemma map_of_append_new:
  assumes "k \<notin> fst ` set obj"
  shows "map_of (obj @ [(k, v)]) = (map_of obj)(k \<mapsto> v)"
  using map_of_insert_between [OF assms, of v "[]"] by simp

lemma map_of_create_property:
  "map_of (create_property k v obj) = (map_of obj)(k \<mapsto> v)"
proof (cases "k \<in> fst ` set obj")
  case True
  then obtain w where "map_of obj k = Some w"
    by (metis domD dom_map_of_conv_image_fst)
  with True show ?thesis
    by (auto simp: create_property_def fun_eq_iff map_of_set_value)
next
  case False
  let ?P = "\<lambda>(k', v'::json). is_index k' \<and> index_of k' < index_of k"
  have "map_of (takeWhile ?P obj @ [(k, v)] @ dropWhile ?P obj)
          = (map_of (takeWhile ?P obj @ dropWhile ?P obj))(k \<mapsto> v)"
    by (rule map_of_insert_between [OF takeWhile_keys [OF False]])
  also have "\<dots> = (map_of obj)(k \<mapsto> v)"
    by (simp only: takeWhile_dropWhile_id)
  finally have 1: "map_of (takeWhile ?P obj @ [(k, v)] @ dropWhile ?P obj)
          = (map_of obj)(k \<mapsto> v)" .
  show ?thesis
  proof (cases "is_index k")
    case True
    with False 1 show ?thesis by (simp only: create_property_def if_False if_True)
  next
    case ni: False
    with False map_of_append_new [OF False] show ?thesis
      by (simp only: create_property_def if_False)
  qed
qed

lemma keys_create_property:
  "fst ` set (create_property k v obj) = insert k (fst ` set obj)"
proof (cases "k \<in> fst ` set obj")
  case True
  have "fst ` set (map (\<lambda>(k', v'). if k' = k then (k', v) else (k', v')) obj)
          = set (map fst obj)"
    by (simp only: set_map [symmetric] map_map keys_set_value)
  with True show ?thesis by (auto simp: create_property_def)
next
  case False
  let ?P = "\<lambda>(k', v'::json). is_index k' \<and> index_of k' < index_of k"
  have "set (takeWhile ?P obj) \<union> set (dropWhile ?P obj) = set obj"
    by (metis set_append takeWhile_dropWhile_id)
  then have "fst ` set (takeWhile ?P obj @ [(k, v)] @ dropWhile ?P obj) = insert k (fst ` set obj)"
    by (simp add: image_Un [symmetric] Un_commute)
  with False show ?thesis by (auto simp: create_property_def)
qed

lemma distinct_create_property:
  assumes "distinct (map fst obj)"
  shows "distinct (map fst (create_property k v obj))"
proof (cases "k \<in> fst ` set obj")
  case True
  with assms show ?thesis by (simp add: create_property_def)
next
  case False
  let ?P = "\<lambda>(k', v'::json). is_index k' \<and> index_of k' < index_of k"
  have "distinct (map fst (takeWhile ?P obj @ dropWhile ?P obj))"
    using assms by (simp only: takeWhile_dropWhile_id)
  then have 1: "distinct (map fst (takeWhile ?P obj @ [(k, v)] @ dropWhile ?P obj))"
    by (rule distinct_insert_between [OF _ takeWhile_keys [OF False] dropWhile_keys [OF False]])
  have 2: "distinct (map fst (obj @ [(k, v)]))"
    using assms False by simp
  show ?thesis
  proof (cases "is_index k")
    case True
    with False 1 show ?thesis by (simp only: create_property_def if_False if_True)
  next
    case ni: False
    with False 2 show ?thesis by (simp only: create_property_def if_False)
  qed
qed

lemma spread_Cons: "spread obj ((k, v) # src) = spread (create_property k v obj) src"
  by (simp add: spread_def)

lemma spread_props:
  assumes "distinct (map fst obj)"
  shows "distinct (map fst (spread obj src))
       \<and> fst ` set (spread obj src) = fst ` set obj \<union> fst ` set src
       \<and> map_of (spread obj src) = map_of obj ++ map_of (rev src)"
  using assms
proof (induction src arbitrary: obj)
  case Nil
  then show ?case by (simp add: spread_def)
next
  case (Cons kv src)
  obtain k v where kv: "kv = (k, v)" by (cases kv)
  let ?o = "create_property k v obj"
  have d: "distinct (map fst ?o)"
    using Cons.prems by (rule distinct_create_property)
  note ih = Cons.IH [OF d]
  have 1: "distinct (map fst (spread obj (kv # src)))"
    using ih by (simp only: kv spread_Cons)
  have 2: "fst ` set (spread obj (kv # src)) = fst ` set obj \<union> fst ` set (kv # src)"
    using ih by (simp add: kv spread_Cons keys_create_property)
  have "map_of (spread obj (kv # src)) = map_of ?o ++ map_of (rev src)"
    using ih by (simp only: kv spread_Cons)
  also have "\<dots> = (map_of obj)(k \<mapsto> v) ++ map_of (rev src)"
    by (simp only: map_of_create_property)
  also have "\<dots> = map_of obj ++ map_of (rev (kv # src))"
    by (rule ext) (simp add: kv map_add_def split: option.splits)
  finally show ?case using 1 2 by simp
qed

lemma envelope_fields:
  assumes "distinct (map fst msg)"
  shows "\<exists>obj. envelope act msg = JObj obj \<and> distinct (map fst obj)
           \<and> fst ` set obj = insert ''action'' (fst ` set msg)
           \<and> (\<forall>(k, v) \<in> set msg. map_of obj k = Some v)
           \<and> (''action'' \<notin> fst ` set msg \<longrightarrow> map_of obj ''action'' = Some (JStr act))"
proof -
  let ?obj = "spread [(''action'', JStr act)] msg"
  have p: "distinct (map fst ?obj)"
      "fst ` set ?obj = fst ` set [(''action'', JStr act)] \<union> fst ` set msg"
      "map_of ?obj = map_of [(''action'', JStr act)] ++ map_of (rev msg)"
    using spread_props [of "[(''action'', JStr act)]" msg] by simp_all
  have m: "map_of (rev msg) k = Some v" if "(k, v) \<in> set msg" for k v
    using that assms by (simp add: rev_map [symmetric])
  have n: "map_of (rev msg) ''action'' = None" if "''action'' \<notin> fst ` set msg"
    using that by (simp add: map_of_eq_None_iff)
  show ?thesis
    unfolding envelope_def using p m n
    by (auto simp: map_add_def split: option.splits)
qed

text \<open>
  C6, as the code has it. With the socket OPEN, \<open>subscribe(msg)\<close> and
  \<open>unsubscribe(msg)\<close> hand exactly one frame to the socket, the text of the object
  \<open>{ action: ..., ...msg }\<close>. That object has the keys of \<open>msg\<close> and \<open>action\<close>, every
  field of \<open>msg\<close> with its own value, and \<open>action\<close> with the injected word when
  \<open>msg\<close> has no \<open>action\<close> of its own (the spread comes second, so a field
  \<open>action\<close> of \<open>msg\<close> replaces the injected one). \<open>subscribe({topic:"X"})\<close> sends
  \<open>{"action":"subscribe","topic":"X"}\<close>.
\<close>

theorem control_frame:
  assumes "ws a = Some i" and "ready a i = Some WS_OPEN"
    and "ws b = Some j" and "ready b j = Some WS_OPEN"
    and "distinct (map fst msg)"
  shows \<open>subscribe_A msg a
           = Ok (a\<lparr>calls := calls a @ [(i, Send (JSON_stringify (envelope ''subscribe'' msg)))],
                   send_cbs := send_cbs a @ [''subscribe'']\<rparr>)
       \<and> unsubscribe_A msg a
           = Ok (a\<lparr>calls := calls a @ [(i, Send (JSON_stringify (envelope ''unsubscribe'' msg)))],
                   send_cbs := send_cbs a @ [''unsubscribe'']\<rparr>)
       \<and> subscribe_B msg b
           = Ok (b\<lparr>calls := calls b @ [(j, Send (JSON_stringify (envelope ''subscribe'' msg)))]\<rparr>)
       \<and> unsubscribe_B msg b
           = Ok (b\<lparr>calls := calls b @ [(j, Send (JSON_stringify (envelope ''unsubscribe'' msg)))]\<rparr>)
       \<and> (\<forall>act. \<exists>obj. envelope act msg = JObj obj \<and> distinct (map fst obj)
             \<and> fst ` set obj = insert ''action'' (fst ` set msg)
             \<and> (\<forall>(k, v) \<in> set msg. map_of obj k = Some v)
             \<and> (''action'' \<notin> fst ` set msg \<longrightarrow> map_of obj ''action'' = Some (JStr act)))
       \<and> JSON_stringify (envelope ''subscribe'' [(''topic'', JStr ''X'')])
           = ''{"action":"subscribe","topic":"X"}''\<close>
proof -
  have 1: \<open>subscribe_A msg a
           = Ok (a\<lparr>calls := calls a @ [(i, Send (JSON_stringify (envelope ''subscribe'' msg)))],
                   send_cbs := send_cbs a @ [''subscribe'']\<rparr>)\<close>
      \<open>unsubscribe_A msg a
           = Ok (a\<lparr>calls := calls a @ [(i, Send (JSON_stringify (envelope ''unsubscribe'' msg)))],
                   send_cbs := send_cbs a @ [''unsubscribe'']\<rparr>)\<close>
    using assms(1,2) by (simp_all add: subscribe_A_def unsubscribe_A_def send_action_A_def ws_send_def)
  have 2: \<open>subscribe_B msg b
           = Ok (b\<lparr>calls := calls b @ [(j, Send (JSON_stringify (envelope ''subscribe'' msg)))]\<rparr>)\<close>
      \<open>unsubscribe_B msg b
           = Ok (b\<lparr>calls := calls b @ [(j, Send (JSON_stringify (envelope ''unsubscribe'' msg)))]\<rparr>)\<close>
    using assms(3,4) by (simp_all add: subscribe_B_def unsubscribe_B_def sendSafe_def ws_send_def)
  have 3: \<open>JSON_stringify (envelope ''subscribe'' [(''topic'', JStr ''X'')])
           = ''{"action":"subscribe","topic":"X"}''\<close>
    by (simp add: envelope_def spread_def create_property_def quote_def escape_char_def
        is_index_def)
  show ?thesis
    using 1 2 3 envelope_fields [OF assms(5)] by blast
qed


theorem control_frame_witness:
  \<open>ws open_A = Some 0 \<and> ready open_A 0 = Some WS_OPEN
   \<and> ws open_B = Some 0 \<and> ready open_B 0 = Some WS_OPEN
   \<and> distinct (map fst [(''topic'', JStr ''X'')])
   \<and> calls (state_of (subscribe_A [(''topic'', JStr ''X'')] open_A))
       = [(0, Send ''{"action":"subscribe","topic":"X"}'')]
   \<and> calls (state_of (subscribe_B [(''topic'', JStr ''X'')] open_B))
       = [(0, Send ''{"action":"subscribe","topic":"X"}'')]\<close>
proof -
  have 1: "ws open_A = Some 0" "ready open_A 0 = Some WS_OPEN"
    by (simp_all add: open_A_value ready_def)
  have 2: "ws open_B = Some 0" "ready open_B 0 = Some WS_OPEN"
    by (simp_all add: open_B_value ready_def)
  have 3: "distinct (map fst [(''topic'', JStr ''X'')])" by simp
  have 4: "calls open_A = []" "calls open_B = []"
    by (simp_all add: open_A_value open_B_value)
  show ?thesis
    using control_frame [OF 1 2 3] 1 2 4 by simp
qed


text \<open>C6 as stated fails for a message with a field \<open>action\<close>: the frame of
  \<open>subscribe({action:"unsubscribe", topic:"X"})\<close> carries \<open>unsubscribe\<close>.\<close>

theorem control_frame_counterexample:
  \<open>envelope ''subscribe'' [(''action'', JStr ''unsubscribe''), (''topic'', JStr ''X'')]
     = JObj [(''action'', JStr ''unsubscribe''), (''topic'', JStr ''X'')]
   \<and> calls (state_of (subscribe_B [(''action'', JStr ''unsubscribe''), (''topic'', JStr ''X'')]
        open_B))
       = [(0, Send ''{"action":"unsubscribe","topic":"X"}'')]\<close>
proof -
  have 1: \<open>envelope ''subscribe'' [(''action'', JStr ''unsubscribe''), (''topic'', JStr ''X'')]
     = JObj [(''action'', JStr ''unsubscribe''), (''topic'', JStr ''X'')]\<close>
    by (simp add: envelope_def spread_def create_property_def is_index_def)
  have 2: \<open>JSON_stringify (JObj [(''action'', JStr ''unsubscribe''), (''topic'', JStr ''X'')])
      = ''{"action":"unsubscribe","topic":"X"}''\<close>
    by (simp add: quote_def escape_char_def)
  have 3: \<open>JSON_stringify
        (envelope ''subscribe'' [(''action'', JStr ''unsubscribe''), (''topic'', JStr ''X'')])
      = ''{"action":"unsubscribe","topic":"X"}''\<close>
    by (simp only: 1 2)
  have 4: \<open>calls (state_of (subscribe_B [(''action'', JStr ''unsubscribe''), (''topic'', JStr ''X'')]
        open_B))
       = [(0, Send ''{"action":"unsubscribe","topic":"X"}'')]\<close>
    by (simp add: 3 subscribe_B_def sendSafe_def ws_send_def open_B_value ready_def)
  show ?thesis by (rule conjI [OF 1 4])
qed

subsection \<open>The methods of draft B as updates; its invariant\<close>

lemma drop_timer_None [simp]: "drop_timer None ts = ts"
  by (simp add: drop_timer_def)


lemma begin_closing_nf: "begin_closing i s = s\<lparr>sockets := upd_at i closing (sockets s)\<rparr>"
  by (auto simp: begin_closing_def sock_upd_def upd_at_def closing_def ready_def list_update_same_conv)

lemma settle_simps [simp]:
  "settle (Ok s) = s"
  "settle (Threw e s) = s\<lparr>thrown := thrown s @ [e]\<rparr>"
  by (simp_all add: settle_def)

lemma closing_call_nf:
  "closing_call pf h c i s =
     (if ready s i = Some WS_CONNECTING \<and> abort_emits_error pf
      then emit_error pf h i
             (s\<lparr>sockets := upd_at i closing (sockets s), calls := calls s @ [(i, c)]\<rparr>)
      else Ok (s\<lparr>sockets := upd_at i closing (sockets s), calls := calls s @ [(i, c)]\<rparr>))"
proof -
  have "begin_closing i (s\<lparr>calls := calls s @ [(i, c)]\<rparr>)
        = s\<lparr>sockets := upd_at i closing (sockets s), calls := calls s @ [(i, c)]\<rparr>"
    by (simp add: begin_closing_nf)
  then show ?thesis by (simp add: closing_call_def Let_def)
qed



lemma notifyStatusChange_nf:
  "notifyStatusChange st s = s\<lparr>statuses := statuses s @ notified (has_onStatusChange s) st\<rparr>"
  by (simp add: notifyStatusChange_def notified_def)











lemma length_upd_at [simp]: "length (upd_at i f ss) = length ss"
  by (simp add: upd_at_def)

lemma length_detach_socket [simp]: "length (detach_socket w ss) = length ss"
  by (simp add: detach_socket_def split: option.splits)

lemma attached_simps [simp]:
  "attached (closing k) = attached k"
  "attached (set_handlers b k) = b"
  "attached (k\<lparr>readyState := r\<rparr>) = attached k"
  by (simp_all add: attached_def closing_def set_handlers_def)

lemma att_set_upd_at:
  "att_set (upd_at i f ss) =
     (if i < length ss
      then (if attached (f (ss ! i)) then insert i (att_set ss) else att_set ss - {i})
      else att_set ss)"
  by (auto simp: att_set_def upd_at_def nth_list_update)

lemma att_set_same [simp]:
  "(\<And>k. attached (f k) = attached k) \<Longrightarrow> att_set (upd_at i f ss) = att_set ss"
  by (auto simp: att_set_def upd_at_def nth_list_update)

lemma att_set_append [simp]:
  "att_set (ss @ [k]) = (if attached k then insert (length ss) (att_set ss) else att_set ss)"
  by (auto simp: att_set_def nth_append less_Suc_eq)

lemma att_set_detach [simp]: "att_set (detach_socket w ss) = att_set ss - set_option w"
proof (cases w)
  case None
  then show ?thesis by (simp add: detach_socket_def)
next
  case (Some i)
  have "i \<notin> att_set ss" if "\<not> i < length ss"
    using that by (simp add: att_set_def)
  with Some show ?thesis by (auto simp: detach_socket_def att_set_upd_at)
qed

lemma att_set_Nil [simp]: "att_set [] = {}"
  by (simp add: att_set_def)

lemma pend_drop_timer [simp]: "pend k (drop_timer h ts) = pend k ts - set_option h"
  by (auto simp: pend_def drop_timer_def)

lemma pend_append [simp]:
  "pend k (ts @ [x]) = (if kind x = k then insert (tid x) (pend k ts) else pend k ts)"
  by (auto simp: pend_def)

lemma pend_Nil [simp]: "pend k [] = {}"
  by (simp add: pend_def)

lemma set_drop_timer [simp]: "set (drop_timer h ts) = {x \<in> set ts. Some (tid x) \<noteq> h}"
  by (auto simp: drop_timer_def)


lemma pend_rearm [simp]:
  "pend k (map (\<lambda>x. if tid x = t then x\<lparr>due := d\<rparr> else x) ts) = pend k ts"
proof -
  have "(\<lambda>x. (tid x, kind x)) ` set (map (\<lambda>x. if tid x = t then x\<lparr>due := d\<rparr> else x) ts)
        = (\<lambda>x. (tid x, kind x)) ` set ts"
    by (induction ts) auto
  moreover have "pend k us = {i. (i, k) \<in> (\<lambda>x. (tid x, kind x)) ` set us}" for us
    by (auto simp: pend_def)
  ultimately show ?thesis by simp
qed


text \<open>What the invariant reads.\<close>

lemma inv_B_frame:
  "sockets s' = sockets s \<Longrightarrow> ws s' = ws s \<Longrightarrow> timers s' = timers s
   \<Longrightarrow> reconnectTimer s' = reconnectTimer s \<Longrightarrow> pingTimer s' = pingTimer s
   \<Longrightarrow> inv_B s' = inv_B s"
  by (simp add: inv_B_def)

lemma inv_B_console [simp]:
  "inv_B (console_log m s) = inv_B s"
  "inv_B (console_warn m s) = inv_B s"
  "inv_B (console_error m s) = inv_B s"
  by (simp_all add: inv_B_def console_log_def console_warn_def console_error_def)

lemma inv_B_callbacks [simp]:
  "inv_B (notifyStatusChange st s) = inv_B s"
  "inv_B (call_onConnect s) = inv_B s"
  "inv_B (call_onCustomMessage m s) = inv_B s"
  by (simp_all add: inv_B_def notifyStatusChange_nf call_onConnect_def call_onCustomMessage_def)

lemma inv_B_settle [simp]: "inv_B (settle r) = inv_B (state_of r)"
  by (cases r) (simp_all add: inv_B_def)

lemma inv_B_emit_error [simp]: "inv_B (state_of (emit_error pf handleError i s)) = inv_B s"
  by (simp add: emit_error_def handleError_def)

lemma inv_B_closing_call [simp]:
  "inv_B (state_of (closing_call pf handleError c i s)) = inv_B s"
proof -
  have "inv_B (s\<lparr>sockets := upd_at i closing (sockets s), calls := calls s @ [(i, c)]\<rparr>)
        = inv_B s"
    by (simp add: inv_B_def)
  then show ?thesis by (simp add: closing_call_nf)
qed


lemma inv_B_ws_send [simp]: "inv_B (state_of (ws_send i f s)) = inv_B s"
  by (simp add: inv_B_def ws_send_def)

lemma inv_B_fields [simp]:
  "inv_B (s\<lparr>now := n\<rparr>) = inv_B s"
  "inv_B (s\<lparr>autoReconnect := b\<rparr>) = inv_B s"
  by (simp_all add: inv_B_def)














lemma inv_B_handleError: "inv_B s \<Longrightarrow> inv_B (handleError s)"
  by (simp add: handleError_def)


lemma inv_B_setTimeout_Pong:
  "inv_B s \<Longrightarrow> inv_B ((snd (setTimeout PongTimeout d s))\<lparr>pongTimeout := h\<rparr>)"
  by (auto simp: inv_B_def setTimeout_def)






















lemma only_disconnected_refl [simp]: "only_disconnected s s"
  by (simp add: only_disconnected_def)


lemma only_disconnected_frame:
  "length (sockets s') = length (sockets s) \<Longrightarrow> statuses s' = statuses s
   \<Longrightarrow> only_disconnected s s'"
  by (simp add: only_disconnected_def)

lemma quiet_B_frame:
  "sockets s' = sockets s \<Longrightarrow> ws s' = ws s \<Longrightarrow> timers s' = timers s
   \<Longrightarrow> reconnectTimer s' = reconnectTimer s \<Longrightarrow> pingTimer s' = pingTimer s
   \<Longrightarrow> quiet_B s' = quiet_B s"
  by (simp add: quiet_B_def)

lemma quiet_B_thrown [simp]: "quiet_B (s\<lparr>thrown := x\<rparr>) = quiet_B s"
  by (simp add: quiet_B_def)

lemma only_disconnected_thrown [simp]:
  "only_disconnected s (s'\<lparr>thrown := x\<rparr>) = only_disconnected s s'"
  by (simp add: only_disconnected_def)










lemma length_force_close [simp]: "length (force_close w ss) = length ss"
  by (simp add: force_close_def split: option.splits)

lemma no_attempt_refl [simp]: "no_attempt s s"
  by (simp add: no_attempt_def)



lemma closed_A_thrown [simp]: "closed_A (s\<lparr>thrown := x\<rparr>) = closed_A s"
  by (simp add: closed_A_def)

lemma no_attempt_thrown [simp]: "no_attempt s (s'\<lparr>thrown := x\<rparr>) = no_attempt s s'"
  by (simp add: no_attempt_def)





















text \<open>On the platform \<open>node_ws\<close>, \<open>disconnect()\<close> of draft B during the handshake
  throws out of \<open>close()\<close>: the slots are empty by then, so the error of the abort
  has no listener. The socket stays in \<open>ws\<close> and DISCONNECTED is not notified.\<close>

lemma disconnect_during_handshake_B:
  "(let s = run_B node_ws (constructor_B callbacks_only) [Call_connect]
    in ws_connecting s
       \<and> threw (disconnect_B node_ws s) = Some UnhandledError
       \<and> ws (state_of (disconnect_B node_ws s)) = Some 0
       \<and> ready (state_of (disconnect_B node_ws s)) 0 = Some WS_CLOSING
       \<and> statuses (state_of (disconnect_B node_ws s)) = [CONNECTING])"
  by (simp add: B_defs runtime_defs example_defs ws_connecting_def Let_def)

subsection \<open>\<open>disconnect\<close>\<close>






subsection \<open>Where a draft departs from the specification\<close>

text \<open>
  C1 (draft B): a pong inside the timeout window should cancel every pending
  liveness timeout. The ping callback overwrites \<open>pongTimeout\<close> without clearing
  the timeout it held, so after two pings a pong cancels the second timeout
  only: with the default interval, pings at 5000 and 10000 and a pong at 10001
  (inside the 10000 ms window of both) leave the first timeout pending, and at
  15000 it terminates and closes the socket.
\<close>

theorem pong_leaves_timeout_pending_B:
  "(let s = run_B node_ws (constructor_B callbacks_only)
              [Call_connect, Sock_open 0, Elapse 5000, Timer_fire 1, Elapse 5000, Timer_fire 1,
               Elapse 1, Sock_message 0 (Text ''pong'')]
    in now s = 10001 \<and> pongTimeout s = None
       \<and> timers s = [\<lparr>tid = 1, kind = PingInterval, due = 15000, period = Some 5000\<rparr>,
                      \<lparr>tid = 2, kind = PongTimeout, due = 15000, period = None\<rparr>]
       \<and> calls s = [(0, Send ''ping''), (0, Send ''ping'')]
       \<and> calls (step_B node_ws s (Timer_fire 2))
           = [(0, Send ''ping''), (0, Send ''ping''), (0, Terminate), (0, Close)]
       \<and> ready (step_B node_ws s (Timer_fire 2)) 0 = Some WS_CLOSING
       \<and> now (step_B node_ws s (Timer_fire 2)) = 15000)"
  by (simp add: B_defs runtime_defs example_defs Let_def)

text \<open>
  C3 (draft A): at most one reconnect should be pending. \<open>onClose\<close> sets
  \<open>reconnecting\<close> to false just before \<open>scheduleReconnect\<close> tests it, and
  \<open>connect\<close> leaves the handlers on the socket it replaces: after two \<open>connect()\<close>
  calls the close events of the two sockets arm two timers, both pending, with
  \<open>autoReconnect\<close> true and no \<open>disconnect()\<close>.
\<close>

theorem two_pending_reconnects_A:
  "(let s = run_A node_ws (constructor_A callbacks_only)
              [Call_connect, Call_connect, Sock_close 0, Sock_close 1]
    in autoReconnect s \<and> \<not> manuallyClosed s
       \<and> timers s = [\<lparr>tid = 1, kind = Reconnect, due = 3000, period = None\<rparr>,
                      \<lparr>tid = 2, kind = Reconnect, due = 3000, period = None\<rparr>])"
  by (simp add: A_defs runtime_defs example_defs Let_def)


text \<open>
  C5 (draft A): after \<open>disconnect()\<close> no CONNECTED should be seen. \<open>disconnect\<close>
  closes the socket only when it is OPEN; a socket that is still CONNECTING is
  left alone with its handlers, and when it opens the owner sees CONNECTED.
\<close>

theorem connected_after_disconnect_A:
  "statuses (run_A node_ws (constructor_A callbacks_only) [Call_connect, Call_disconnect])
     = [CONNECTING]
   \<and> statuses (run_A node_ws (constructor_A callbacks_only)
        [Call_connect, Call_disconnect, Sock_open 0]) = [CONNECTING, CONNECTED]"
  by (simp add: A_defs runtime_defs example_defs Let_def)


end
